theory Spec2Isabelle
  imports Complex_Main
begin

section \<open>TaskTide: the timer of \<^verbatim>\<open>src/Timer.tsx\<close>\<close>

text \<open>
  The component \<^verbatim>\<open>Timer\<close> keeps a reducer state (\<^verbatim>\<open>TimerState\<close>), a few
  \<^verbatim>\<open>useState\<close> cells (the configured minutes, the text of the two inputs, the
  auto-start flag) and mirrors part of both in \<^verbatim>\<open>localStorage\<close>. The embedding
  follows the file from top to bottom.

  Numbers: the TypeScript type \<^verbatim>\<open>number\<close> is read as \<open>int\<close>. Every number the
  component computes itself is an integer (\<^verbatim>\<open>parseInt\<close>, \<open>* 60\<close>, \<open>+ 1\<close>,
  \<open>- 1\<close>); doubles beyond \<open>2^53\<close>, \<^verbatim>\<open>NaN\<close> and fractions are outside the model.
  Strings are byte strings.
\<close>

subsection \<open>Printing numbers: \<^verbatim>\<open>String(n)\<close>, \<^verbatim>\<open>padStart\<close>, \<^verbatim>\<open>%\<close>\<close>

fun decimal :: "nat \<Rightarrow> string" where
  "decimal n =
     (if n < 10 then [''0123456789'' ! n]
      else decimal (n div 10) @ [''0123456789'' ! (n mod 10)])"

declare decimal.simps [simp del]

text \<open>\<^verbatim>\<open>String(n)\<close> for an integer \<open>n\<close> (negative zero prints as \<open>0\<close>).\<close>

definition String_number :: "int \<Rightarrow> string" where
  "String_number n = (if n < 0 then CHR ''-'' # decimal (nat (- n)) else decimal (nat n))"

text \<open>\<^verbatim>\<open>s.padStart(2, "0")\<close>.\<close>

definition padStart2 :: "string \<Rightarrow> string" where
  "padStart2 s = replicate (2 - length s) CHR ''0'' @ s"

text \<open>
  The remainder \<^verbatim>\<open>a % b\<close> of JavaScript truncates towards zero: its sign is the
  sign of \<open>a\<close>. (\<^verbatim>\<open>Math.floor(a / b)\<close> for \<open>b > 0\<close> is \<open>a div b\<close> of HOL.)
\<close>

definition js_rem :: "int \<Rightarrow> int \<Rightarrow> int" where
  "js_rem a b = sgn a * (\<bar>a\<bar> mod \<bar>b\<bar>)"

definition formatTime :: "int \<Rightarrow> string" where
  "formatTime totalSeconds =
     (let m = padStart2 (String_number (totalSeconds div 60));
          s = padStart2 (String_number (js_rem totalSeconds 60))
      in m @ '':'' @ s)"

subsection \<open>The reducer\<close>

datatype phase = Work | Break

record SessionLog =
  id' :: string
  type :: phase
  duration :: string
  time :: string

record TimerState =
  secondsLeft :: int
  isRunning :: bool
  isBreak :: bool
  message :: string
  workSessions :: int
  breakSessions :: int
  sessionLog :: "SessionLog list"

datatype TimerAction =
    TICK
  | PHASE_TRANSITION int int bool
  | TOGGLE_TIMER bool
  | STOP
  | RESET int
  | RESET_HISTORY
  | INIT_STATE int int "SessionLog list"

text \<open>
  What a transition reads from outside the program: \<^verbatim>\<open>Date.now()\<close>, the text of
  \<^verbatim>\<open>Math.random()\<close> and the text of \<^verbatim>\<open>new Date().toLocaleTimeString(...)\<close>.
\<close>

record ambient =
  Date_now :: int
  Math_random :: string
  toLocaleTimeString :: string

text \<open>The pictographs that end the four messages, as UTF-8 bytes.\<close>

definition party :: string where
  "party = [CHR 0xF0, CHR 0x9F, CHR 0x8E, CHR 0x89]"

definition biceps :: string where
  "biceps = [CHR 0xF0, CHR 0x9F, CHR 0x92, CHR 0xAA]"

definition coffee :: string where
  "coffee = [CHR 0xE2, CHR 0x98, CHR 0x95]"

definition brain :: string where
  "brain = [CHR 0xF0, CHR 0x9F, CHR 0xA7, CHR 0xA0]"

text \<open>The entry a transition logs: lines 66 to 78 (and, once more, 330 to 342).\<close>

definition logEntry :: "ambient \<Rightarrow> bool \<Rightarrow> int \<Rightarrow> int \<Rightarrow> SessionLog" where
  "logEntry a isBreak_now workMinutes breakMinutes =
     \<lparr> id' = String_number (Date_now a) @ ''-'' @ Math_random a,
       type = (if isBreak_now then Break else Work),
       duration = formatTime (if isBreak_now then breakMinutes * 60 else workMinutes * 60),
       time = toLocaleTimeString a \<rparr>"

fun timerReducer :: "ambient \<Rightarrow> TimerState \<Rightarrow> TimerAction \<Rightarrow> TimerState" where
  "timerReducer a state TICK =
     state\<lparr> secondsLeft := (if secondsLeft state > 0 then secondsLeft state - 1 else 0) \<rparr>"
| "timerReducer a state (PHASE_TRANSITION workMinutes breakMinutes autoStart) =
     (let currentPhase = (if isBreak state then Break else Work);
          nextPhase = (\<not> isBreak state);
          newSecondsLeft = (if nextPhase then breakMinutes else workMinutes) * 60
      in state\<lparr>
           secondsLeft := newSecondsLeft,
           isBreak := nextPhase,
           isRunning := (if nextPhase then True else autoStart),
           message := (if nextPhase then ''Break time! '' @ party else ''Back to work! '' @ biceps),
           workSessions :=
             (if currentPhase = Work then workSessions state + 1 else workSessions state),
           breakSessions :=
             (if currentPhase = Break then breakSessions state + 1 else breakSessions state),
           sessionLog :=
             logEntry a (isBreak state) workMinutes breakMinutes # take 49 (sessionLog state) \<rparr>)"
| "timerReducer a state (TOGGLE_TIMER isBreak_now) =
     state\<lparr>
       isRunning := (\<not> isRunning state),
       message := (if isBreak_now then ''Break time! '' @ coffee else ''Focus time! '' @ brain) \<rparr>"
| "timerReducer a state STOP = state\<lparr> isRunning := False \<rparr>"
| "timerReducer a state (RESET workMinutes) =
     state\<lparr>
       isRunning := False,
       isBreak := False,
       secondsLeft := workMinutes * 60,
       message := ''Focus time! '' @ brain \<rparr>"
| "timerReducer a state RESET_HISTORY =
     state\<lparr> sessionLog := [], workSessions := 0, breakSessions := 0 \<rparr>"
| "timerReducer a state (INIT_STATE workS breakS log') =
     state\<lparr> workSessions := workS, breakSessions := breakS, sessionLog := log' \<rparr>"

subsection \<open>\<^verbatim>\<open>localStorage\<close> and \<^verbatim>\<open>getLocalStorage\<close>\<close>

text \<open>
  The values \<^verbatim>\<open>JSON.parse\<close> returns. A number is read as the rational it denotes;
  an object is the list of its own properties, each name once.
\<close>

datatype json =
    JNull
  | JBool bool
  | JNum rat
  | JStr string
  | JArr "json list"
  | JObj "(string \<times> json) list"

text \<open>
  \<^verbatim>\<open>getLocalStorage\<close> looks at the text stored under a key in two ways only: the
  test \<^verbatim>\<open>!item\<close> and \<^verbatim>\<open>JSON.parse(item)\<close>. A stored text is therefore one of:
  the empty text (falsy), a text \<^verbatim>\<open>JSON.parse\<close> throws on, or a text that parses
  to a value. A key that is not stored (\<^verbatim>\<open>getItem\<close> returns \<^verbatim>\<open>null\<close>) is
  \<open>None\<close> of the map.
\<close>

datatype item = EmptyText | Garbled | Json json

type_synonym storage = "string \<rightharpoonup> item"

datatype exn = SyntaxError

definition JSON_parse :: "item \<Rightarrow> exn + json" where
  "JSON_parse it = (case it of Json v \<Rightarrow> Inr v | _ \<Rightarrow> Inl SyntaxError)"

text \<open>\<^verbatim>\<open>entry &&\<close>: the truth value of a parsed value.\<close>

fun truthy :: "json \<Rightarrow> bool" where
  "truthy JNull = False"
| "truthy (JBool b) = b"
| "truthy (JNum n) = (n \<noteq> 0)"
| "truthy (JStr s) = (s \<noteq> [])"
| "truthy (JArr _) = True"
| "truthy (JObj _) = True"

text \<open>
  \<^verbatim>\<open>entry.id\<close>, \<^verbatim>\<open>entry.type\<close>, \<^verbatim>\<open>entry.duration\<close>, \<^verbatim>\<open>entry.time\<close> on a truthy
  value; \<open>None\<close> is \<^verbatim>\<open>undefined\<close>. Numbers, booleans, strings and arrays have no
  property of these four names.
\<close>

fun property :: "json \<Rightarrow> string \<Rightarrow> json option" where
  "property (JObj props) name = map_of props name"
| "property _ name = None"

fun typeof :: "json option \<Rightarrow> string" where
  "typeof None = ''undefined''"
| "typeof (Some JNull) = ''object''"
| "typeof (Some (JBool _)) = ''boolean''"
| "typeof (Some (JNum _)) = ''number''"
| "typeof (Some (JStr _)) = ''string''"
| "typeof (Some (JArr _)) = ''object''"
| "typeof (Some (JObj _)) = ''object''"

text \<open>\<^verbatim>\<open>xs.includes(v)\<close> for a list of strings \<open>xs\<close>.\<close>

fun Array_includes :: "json list \<Rightarrow> json option \<Rightarrow> bool" where
  "Array_includes xs None = False"
| "Array_includes xs (Some v) = (v \<in> set xs)"

fun isArray :: "json \<Rightarrow> bool" where
  "isArray (JArr _) = True"
| "isArray _ = False"

text \<open>The callback of \<^verbatim>\<open>parsed.every\<close>, lines 128 to 133.\<close>

definition validEntry :: "json \<Rightarrow> bool" where
  "validEntry entry =
     (truthy entry \<and>
      typeof (property entry ''id'') = ''string'' \<and>
      Array_includes [JStr ''Work'', JStr ''Break''] (property entry ''type'') \<and>
      typeof (property entry ''duration'') = ''string'' \<and>
      typeof (property entry ''time'') = ''string'')"

text \<open>\<^verbatim>\<open>parsed.every(...)\<close>. It is called on arrays only: \<^verbatim>\<open>!Array.isArray(parsed) ||\<close>
  comes first.\<close>

fun every :: "(json \<Rightarrow> bool) \<Rightarrow> json \<Rightarrow> bool" where
  "every p (JArr es) = list_all p es"
| "every p _ = False"

text \<open>
  The body of the \<^verbatim>\<open>try\<close> block: \<open>Inl\<close> is an exception thrown inside it.
\<close>

definition getLocalStorage_try :: "storage \<Rightarrow> string \<Rightarrow> json \<Rightarrow> exn + json" where
  "getLocalStorage_try store key fallback =
     (case store key of
        None \<Rightarrow> Inr fallback
      | Some EmptyText \<Rightarrow> Inr fallback
      | Some it \<Rightarrow>
          (case JSON_parse it of
             Inl e \<Rightarrow> Inl e
           | Inr parsed \<Rightarrow>
               if key = ''sessionLog'' \<and> (\<not> isArray parsed \<or> \<not> every validEntry parsed)
               then Inr fallback
               else Inr parsed))"

text \<open>\<^verbatim>\<open>try { ... } catch (error) { return fallback; }\<close>\<close>

definition getLocalStorage :: "storage \<Rightarrow> string \<Rightarrow> json \<Rightarrow> json" where
  "getLocalStorage store key fallback =
     (case getLocalStorage_try store key fallback of Inl e \<Rightarrow> fallback | Inr v \<Rightarrow> v)"

text \<open>
  \<^verbatim>\<open>setLocalStorage\<close> stores \<^verbatim>\<open>JSON.stringify(value)\<close>, a text that parses back to
  \<open>value\<close>. \<^verbatim>\<open>setItem\<close> may throw (the quota): \<open>failing\<close> lists the keys on which
  it throws; the handler then only reports, and the store is as before.
\<close>

definition setLocalStorage :: "string list \<Rightarrow> string \<Rightarrow> json \<Rightarrow> storage \<Rightarrow> storage" where
  "setLocalStorage failing key v store =
     (if key \<in> set failing then store else store(key \<mapsto> Json v))"

text \<open>The JSON image of a log entry, and of a log.\<close>

definition phase_name :: "phase \<Rightarrow> string" where
  "phase_name p = (case p of Work \<Rightarrow> ''Work'' | Break \<Rightarrow> ''Break'')"

definition SessionLog_json :: "SessionLog \<Rightarrow> json" where
  "SessionLog_json e =
     JObj [(''id'', JStr (id' e)), (''type'', JStr (phase_name (type e))),
           (''duration'', JStr (duration e)), (''time'', JStr (time e))]"

definition log_json :: "SessionLog list \<Rightarrow> json" where
  "log_json entries = JArr (map SessionLog_json entries)"

text \<open>
  Reading a loaded value at the type the component declares for it. TypeScript's types
  are erased at run time: \<^verbatim>\<open>getLocalStorage("workMinutes", 25)\<close> returns whatever
  was stored, a number or not. \<open>None\<close>: the value is not of the declared type (for a
  number: it is not an integer), and the run is outside the typed model.
\<close>

fun as_number :: "json \<Rightarrow> int option" where
  "as_number (JNum r) = (if of_int \<lfloor>r\<rfloor> = r then Some \<lfloor>r\<rfloor> else None)"
| "as_number _ = None"

fun as_boolean :: "json \<Rightarrow> bool option" where
  "as_boolean (JBool b) = Some b"
| "as_boolean _ = None"

fun as_phase :: "json option \<Rightarrow> phase option" where
  "as_phase (Some (JStr s)) =
     (if s = ''Work'' then Some Work else if s = ''Break'' then Some Break else None)"
| "as_phase _ = None"

fun as_string :: "json option \<Rightarrow> string option" where
  "as_string (Some (JStr s)) = Some s"
| "as_string _ = None"

definition as_SessionLog :: "json \<Rightarrow> SessionLog option" where
  "as_SessionLog entry =
     (case (as_string (property entry ''id''), as_phase (property entry ''type''),
            as_string (property entry ''duration''), as_string (property entry ''time'')) of
        (Some i, Some p, Some d, Some t) \<Rightarrow>
          Some \<lparr> id' = i, type = p, duration = d, time = t \<rparr>
      | _ \<Rightarrow> None)"

fun as_log :: "json \<Rightarrow> SessionLog list option" where
  "as_log (JArr es) = those (map as_SessionLog es)"
| "as_log _ = None"

subsection \<open>\<^verbatim>\<open>parseInt\<close>\<close>

text \<open>
  \<^verbatim>\<open>parseInt(string)\<close> without a radix: leading white space is skipped, a sign is
  read, a prefix \<^verbatim>\<open>0x\<close> or \<^verbatim>\<open>0X\<close> selects radix 16, and the longest run of digits
  of the radix is the number; with no digit the result is \<^verbatim>\<open>NaN\<close>, here \<open>None\<close>.
  White space is ASCII white space.
\<close>

definition isStrWhiteSpaceChar :: "char \<Rightarrow> bool" where
  "isStrWhiteSpaceChar c = (c \<in> set [CHR 0x09, CHR 0x0A, CHR 0x0B, CHR 0x0C, CHR 0x0D, CHR 0x20])"

definition digitValue :: "char \<Rightarrow> nat option" where
  "digitValue c =
     (let n = (of_char c :: nat) in
      if 48 \<le> n \<and> n \<le> 57 then Some (n - 48)
      else if 97 \<le> n \<and> n \<le> 122 then Some (n - 87)
      else if 65 \<le> n \<and> n \<le> 90 then Some (n - 55)
      else None)"

definition inRadix :: "nat \<Rightarrow> char \<Rightarrow> bool" where
  "inRadix R c = (case digitValue c of Some d \<Rightarrow> d < R | None \<Rightarrow> False)"

definition radixValue :: "nat \<Rightarrow> string \<Rightarrow> nat" where
  "radixValue R Z =
     foldl (\<lambda>acc c. case digitValue c of Some d \<Rightarrow> acc * R + d | None \<Rightarrow> acc) 0 Z"

definition parseInt :: "string \<Rightarrow> int option" where
  "parseInt inputString =
     (let S = dropWhile isStrWhiteSpaceChar inputString;
          negative = (take 1 S = ''-'');
          S1 = (if take 1 S = ''+'' \<or> take 1 S = ''-'' then drop 1 S else S);
          hex = (take 2 S1 = ''0x'' \<or> take 2 S1 = ''0X'');
          R = (if hex then 16 else 10);
          S2 = (if hex then drop 2 S1 else S1);
          Z = takeWhile (inRadix R) S2
      in if Z = [] then None
         else Some ((if negative then - 1 else 1) * int (radixValue R Z)))"

text \<open>\<^verbatim>\<open>Math.max(1, parseInt(input) || 1)\<close>: \<^verbatim>\<open>NaN\<close> and \<open>0\<close> are falsy.\<close>

definition coerceMinutes :: "string \<Rightarrow> int" where
  "coerceMinutes input =
     max 1 (case parseInt input of None \<Rightarrow> 1 | Some n \<Rightarrow> if n = 0 then 1 else n)"

subsection \<open>The component\<close>

text \<open>
  The \<^verbatim>\<open>useState\<close> cells, the reducer state and the ref \<^verbatim>\<open>isLoggingRef\<close>. The
  cells of the presentation (theme, menu, modal, full screen, \<^verbatim>\<open>transitionRef\<close>) take
  no part in what follows and are left out.
\<close>

record Timer =
  workMinutes :: int
  breakMinutes :: int
  workInput :: string
  breakInput :: string
  autoStart :: bool
  state :: TimerState
  isLoggingRef :: bool

record browser =
  timer :: Timer
  localStorage :: storage

text \<open>The first render: lines 167 to 193.\<close>

definition initialState :: TimerState where
  "initialState =
     \<lparr> secondsLeft = 25 * 60, isRunning = False, isBreak = False,
       message = ''Focus time! '' @ brain, workSessions = 0, breakSessions = 0,
       sessionLog = [] \<rparr>"

definition firstRender :: Timer where
  "firstRender =
     \<lparr> workMinutes = 25, breakMinutes = 5, workInput = ''25'', breakInput = ''5'',
       autoStart = False, state = initialState, isLoggingRef = False \<rparr>"

text \<open>\<open>a\<close>: what the reducer reads from outside when React runs it.\<close>

definition dispatch :: "ambient \<Rightarrow> TimerAction \<Rightarrow> Timer \<Rightarrow> Timer" where
  "dispatch a action c = c\<lparr> state := timerReducer a (state c) action \<rparr>"

text \<open>
  The effect ``Initialize from localStorage'', lines 199 to 219. The six loaded values go
  into cells and actions typed \<^verbatim>\<open>number\<close>, \<^verbatim>\<open>boolean\<close> and \<^verbatim>\<open>SessionLog[]\<close>;
  \<open>loaded\<close> is the six values as \<^verbatim>\<open>getLocalStorage\<close> returns them.
\<close>

record loaded =
  work :: json
  brk :: json
  auto :: json
  workS :: json
  breakS :: json
  log' :: json

definition load :: "storage \<Rightarrow> loaded" where
  "load store =
     \<lparr> work = getLocalStorage store ''workMinutes'' (JNum 25),
       brk = getLocalStorage store ''breakMinutes'' (JNum 5),
       auto = getLocalStorage store ''autoStart'' (JBool False),
       workS = getLocalStorage store ''workSessions'' (JNum 0),
       breakS = getLocalStorage store ''breakSessions'' (JNum 0),
       log' = getLocalStorage store ''sessionLog'' (JArr []) \<rparr>"

definition initEffect :: "ambient \<Rightarrow> storage \<Rightarrow> Timer \<Rightarrow> Timer option" where
  "initEffect a store c =
     (let v = load store in
      case (as_number (work v), as_number (brk v), as_boolean (auto v),
            as_number (workS v), as_number (breakS v), as_log (log' v)) of
        (Some w, Some b, Some au, Some ws, Some bs, Some l) \<Rightarrow>
          Some (dispatch a (INIT_STATE ws bs l)
                 (dispatch a (RESET w)
                   (c\<lparr> workMinutes := w, breakMinutes := b,
                       workInput := String_number w, breakInput := String_number b,
                       autoStart := au \<rparr>)))
      | _ \<Rightarrow> None)"

text \<open>The effect ``Persist all state to localStorage'', lines 222 to 236.\<close>

definition persistEffect :: "string list \<Rightarrow> Timer \<Rightarrow> storage \<Rightarrow> storage" where
  "persistEffect failing c store =
     (setLocalStorage failing ''sessionLog'' (log_json (sessionLog (state c)))
     (setLocalStorage failing ''breakSessions'' (JNum (of_int (breakSessions (state c))))
     (setLocalStorage failing ''workSessions'' (JNum (of_int (workSessions (state c))))
     (setLocalStorage failing ''autoStart'' (JBool (autoStart c))
     (setLocalStorage failing ''breakMinutes'' (JNum (of_int (breakMinutes c)))
     (setLocalStorage failing ''workMinutes'' (JNum (of_int (workMinutes c))) store))))))"

text \<open>
  The effect ``Handle phase transition'', lines 292 to 360. \<open>a\<close> is what the reducer
  reads for the entry it logs, \<open>a2\<close> what the effect reads for the entry it saves; the
  three saves are computed from the state of the render the effect belongs to, before
  the action. The interval (\<^verbatim>\<open>timerRef\<close>), the sound and the fade are left out.
\<close>

definition phaseGuard :: "Timer \<Rightarrow> bool" where
  "phaseGuard c = (secondsLeft (state c) \<le> 0 \<and> isRunning (state c) \<and> \<not> isLoggingRef c)"

definition phaseEffect :: "ambient \<Rightarrow> ambient \<Rightarrow> string list \<Rightarrow> browser \<Rightarrow> browser" where
  "phaseEffect a a2 failing w =
     (let c = timer w; s = state c in
      if phaseGuard c then
        (let c1 = c\<lparr> isLoggingRef := True \<rparr>;
             c2 = dispatch a (PHASE_TRANSITION (workMinutes c) (breakMinutes c) (autoStart c)) c1;
             st1 = setLocalStorage failing ''workSessions''
                     (JNum (of_int (workSessions s + (if isBreak s then 0 else 1)))) (localStorage w);
             st2 = setLocalStorage failing ''breakSessions''
                     (JNum (of_int (breakSessions s + (if isBreak s then 1 else 0)))) st1;
             st3 = setLocalStorage failing ''sessionLog''
                     (log_json (logEntry a2 (isBreak s) (workMinutes c) (breakMinutes c)
                                # take 49 (sessionLog s))) st2
         in \<lparr> timer = c2\<lparr> isLoggingRef := False \<rparr>, localStorage = st3 \<rparr>)
      else w)"

text \<open>The handlers, lines 409 to 483.\<close>

definition toggleTimer :: "ambient \<Rightarrow> Timer \<Rightarrow> Timer" where
  "toggleTimer a c = dispatch a (TOGGLE_TIMER (isBreak (state c))) c"

definition stopTimer :: "ambient \<Rightarrow> Timer \<Rightarrow> Timer" where
  "stopTimer a c = dispatch a STOP c"

definition resetTimer :: "ambient \<Rightarrow> Timer \<Rightarrow> Timer" where
  "resetTimer a c = dispatch a (RESET (workMinutes c)) c"

definition handleWorkInputBlur :: "ambient \<Rightarrow> Timer \<Rightarrow> Timer" where
  "handleWorkInputBlur a c =
     (let val = coerceMinutes (workInput c);
          c1 = c\<lparr> workMinutes := val, workInput := String_number val \<rparr>
      in if \<not> isBreak (state c) \<and> \<not> isRunning (state c)
         then dispatch a (RESET val) c1 else c1)"

definition handleBreakInputBlur :: "ambient \<Rightarrow> Timer \<Rightarrow> Timer" where
  "handleBreakInputBlur a c =
     (let val = coerceMinutes (breakInput c);
          c1 = c\<lparr> breakMinutes := val, breakInput := String_number val \<rparr>
      in if isBreak (state c) \<and> \<not> isRunning (state c)
         then dispatch a (RESET (workMinutes c)) c1 else c1)"

definition confirmResetHistory :: "ambient \<Rightarrow> string list \<Rightarrow> browser \<Rightarrow> browser" where
  "confirmResetHistory a failing w =
     \<lparr> timer = dispatch a RESET_HISTORY (timer w),
       localStorage =
         setLocalStorage failing ''sessionLog'' (JArr [])
           (setLocalStorage failing ''breakSessions'' (JNum 0)
             (setLocalStorage failing ''workSessions'' (JNum 0) (localStorage w))) \<rparr>"

subsection \<open>Runs of the application\<close>

text \<open>
  What can happen to a mounted component: the interval fires, an effect runs, the user
  acts. The key handler is registered once, by an effect with no dependencies, so the
  keys call the handlers of the first render: \<^verbatim>\<open>toggleTimer\<close> with
  \<^verbatim>\<open>state.isBreak = false\<close> and \<^verbatim>\<open>resetTimer\<close> with \<^verbatim>\<open>workMinutes = 25\<close>.
  The effects of the theme write the key \<^verbatim>\<open>theme\<close> only, which nothing below reads;
  they are left out.
\<close>

datatype event =
    Interval
  | PhaseEffect ambient
  | PersistEffect
  | ClickToggle
  | ClickStop
  | ClickReset
  | KeySpace
  | KeyS
  | KeyR
  | WorkInputChange string
  | BreakInputChange string
  | WorkInputBlur
  | BreakInputBlur
  | AutoStartChange bool
  | ConfirmResetHistory

definition onTimer :: "(Timer \<Rightarrow> Timer) \<Rightarrow> browser \<Rightarrow> browser" where
  "onTimer f w = w\<lparr> timer := f (timer w) \<rparr>"

fun handle :: "ambient \<Rightarrow> string list \<Rightarrow> event \<Rightarrow> browser \<Rightarrow> browser" where
  "handle a failing Interval w = onTimer (dispatch a TICK) w"
| "handle a failing (PhaseEffect a2) w = phaseEffect a a2 failing w"
| "handle a failing PersistEffect w =
     w\<lparr> localStorage := persistEffect failing (timer w) (localStorage w) \<rparr>"
| "handle a failing ClickToggle w = onTimer (toggleTimer a) w"
| "handle a failing ClickStop w = onTimer (stopTimer a) w"
| "handle a failing ClickReset w = onTimer (resetTimer a) w"
| "handle a failing KeySpace w = onTimer (dispatch a (TOGGLE_TIMER False)) w"
| "handle a failing KeyS w = onTimer (dispatch a STOP) w"
| "handle a failing KeyR w = onTimer (dispatch a (RESET 25)) w"
| "handle a failing (WorkInputChange typed) w = onTimer (\<lambda>c. c\<lparr> workInput := typed \<rparr>) w"
| "handle a failing (BreakInputChange typed) w = onTimer (\<lambda>c. c\<lparr> breakInput := typed \<rparr>) w"
| "handle a failing WorkInputBlur w = onTimer (handleWorkInputBlur a) w"
| "handle a failing BreakInputBlur w = onTimer (handleBreakInputBlur a) w"
| "handle a failing (AutoStartChange checked) w = onTimer (\<lambda>c. c\<lparr> autoStart := checked \<rparr>) w"
| "handle a failing ConfirmResetHistory w = confirmResetHistory a failing w"

text \<open>
  The states of the application in a browser whose store for this origin starts empty
  and is written by the application only. A run starts at the first render. At any
  moment an event of the mounted component may happen, in any order, each on the state
  the one before has left (so an effect runs with no action pending, and a tick may
  come whether the interval is armed or not). Or the page may be loaded anew: the
  component is mounted again over the store as it is, the initialising effect reads
  the store, and the persisting effect of the first render writes the defaults.
\<close>

definition fresh :: browser where
  "fresh = \<lparr> timer = firstRender, localStorage = Map.empty \<rparr>"

inductive reachable :: "browser \<Rightarrow> bool" where
  first_visit: "reachable fresh"
| mount: "reachable w \<Longrightarrow> initEffect a (localStorage w) firstRender = Some c \<Longrightarrow>
     reachable \<lparr> timer = c, localStorage = persistEffect failing firstRender (localStorage w) \<rparr>"
| event: "reachable w \<Longrightarrow> reachable (handle a failing e w)"

subsection \<open>The specification's words\<close>

text \<open>
  A stored log entry as the specification describes it:
  \<^verbatim>\<open>{id: string, type: "Work"|"Break", duration: string, time: string}\<close>. A stored
  value is malformed when it is not a sequence, or when one of its entries misses one of
  the four fields or has one of another type.
\<close>

fun is_text :: "json option \<Rightarrow> bool" where
  "is_text (Some (JStr s)) = True"
| "is_text _ = False"

fun is_kind :: "json option \<Rightarrow> bool" where
  "is_kind (Some (JStr s)) = (s = ''Work'' \<or> s = ''Break'')"
| "is_kind _ = False"

fun entry_as_specified :: "json \<Rightarrow> bool" where
  "entry_as_specified (JObj props) =
     (is_text (map_of props ''id'') \<and> is_kind (map_of props ''type'') \<and>
      is_text (map_of props ''duration'') \<and> is_text (map_of props ''time''))"
| "entry_as_specified _ = False"

fun malformed :: "item \<Rightarrow> bool" where
  "malformed (Json (JArr es)) = (\<exists>e \<in> set es. \<not> entry_as_specified e)"
| "malformed _ = True"

subsection \<open>What holds along every run\<close>

definition at_least_one :: "json \<Rightarrow> bool" where
  "at_least_one v = (case as_number v of Some n \<Rightarrow> 1 \<le> n | None \<Rightarrow> False)"

fun at_most_50 :: "json \<Rightarrow> bool" where
  "at_most_50 (JArr es) = (length es \<le> 50)"
| "at_most_50 _ = False"

text \<open>The store loads to values of the declared types, durations of a minute or more
  and a log of 50 entries or fewer.\<close>

definition well_stored :: "storage \<Rightarrow> bool" where
  "well_stored store =
     (let v = load store in
      at_least_one (work v) \<and> at_least_one (brk v) \<and> as_boolean (auto v) \<noteq> None \<and>
      as_number (workS v) \<noteq> None \<and> as_number (breakS v) \<noteq> None \<and> at_most_50 (log' v))"

definition well_configured :: "browser \<Rightarrow> bool" where
  "well_configured w =
     (1 \<le> workMinutes (timer w) \<and> 1 \<le> breakMinutes (timer w) \<and> \<not> isLoggingRef (timer w) \<and>
      length (sessionLog (state (timer w))) \<le> 50 \<and> well_stored (localStorage w))"

text \<open>
  Runs of events, and three counts on them: the transitions the effect performs, the
  crossings of \<^verbatim>\<open>secondsLeft\<close> from 1 to 0 while the timer runs, and whether a
  transition is due (the condition of the effect holds).
\<close>

type_synonym occurrence = "ambient \<times> string list \<times> event"

fun run :: "occurrence list \<Rightarrow> browser \<Rightarrow> browser" where
  "run [] w = w"
| "run ((a, failing, e) # es) w = run es (handle a failing e w)"

fun is_PhaseEffect :: "event \<Rightarrow> bool" where
  "is_PhaseEffect (PhaseEffect _) = True"
| "is_PhaseEffect _ = False"






fun transitions :: "occurrence list \<Rightarrow> browser \<Rightarrow> nat" where
  "transitions [] w = 0"
| "transitions ((a, failing, e) # es) w =
     (if is_PhaseEffect e \<and> phaseGuard (timer w) then 1 else 0)
     + transitions es (handle a failing e w)"

fun crossings :: "occurrence list \<Rightarrow> browser \<Rightarrow> nat" where
  "crossings [] w = 0"
| "crossings ((a, failing, e) # es) w =
     (if e = Interval \<and> secondsLeft (state (timer w)) = 1 \<and> isRunning (state (timer w))
      then 1 else 0)
     + crossings es (handle a failing e w)"

text \<open>
  Every entry logged along a run, the newest first, since the history was last reset:
  \<open>h\<close> is the list at the start of the run. It has no bound; the log of the state is
  compared with it below.
\<close>

fun history :: "occurrence list \<Rightarrow> browser \<Rightarrow> SessionLog list \<Rightarrow> SessionLog list" where
  "history [] w h = h"
| "history ((a, failing, e) # es) w h =
     history es (handle a failing e w)
       (if is_PhaseEffect e \<and> phaseGuard (timer w)
        then logEntry a (isBreak (state (timer w))) (workMinutes (timer w))
               (breakMinutes (timer w)) # h
        else if e = ConfirmResetHistory then [] else h)"

subsection \<open>Concrete values\<close>

text \<open>A reading of the clock and of the random source, for the examples.\<close>

definition morning :: ambient where
  "morning =
     \<lparr> Date_now = 1700000000000, Math_random = ''0.25'', toLocaleTimeString = ''9:41:00 AM'' \<rparr>"

text \<open>A stored log whose only entry has no \<^verbatim>\<open>type\<close>.\<close>

definition entry_without_type :: json where
  "entry_without_type =
     JObj [(''id'', JStr ''1700000000000-0.25''), (''duration'', JStr ''25:00''),
           (''time'', JStr ''9:41:00 AM'')]"

text \<open>
  A first visit: the work minutes are set to 1, the timer is started and 59 seconds pass.
  Then the last second passes, with the effect run three times around one more tick.
\<close>

definition one_minute_of_work :: "occurrence list" where
  "one_minute_of_work =
     [(morning, [], WorkInputChange ''1''), (morning, [], WorkInputBlur),
      (morning, [], ClickToggle)] @ replicate 59 (morning, [], Interval)"

definition last_second :: browser where
  "last_second = run one_minute_of_work fresh"

definition at_zero :: browser where
  "at_zero = run [(morning, [], Interval)] last_second"

definition crossing :: "occurrence list" where
  "crossing =
     [(morning, [], Interval), (morning, [], PhaseEffect morning),
      (morning, [], PhaseEffect morning), (morning, [], Interval),
      (morning, [], PhaseEffect morning)]"

text \<open>
  The break that follows is paused at once, and \<open>10\<close> is typed into the input of the
  break minutes: the component is then as \<open>paused_on_break\<close>.
\<close>

definition pause_and_type :: "occurrence list" where
  "pause_and_type = [(morning, [], ClickToggle), (morning, [], BreakInputChange ''10'')]"

definition paused_on_break :: Timer where
  "paused_on_break =
     \<lparr> workMinutes = 1, breakMinutes = 5, workInput = ''1'', breakInput = ''10'',
       autoStart = False,
       state = \<lparr> secondsLeft = 299, isRunning = False, isBreak = True,
                 message = ''Break time! '' @ coffee, workSessions = 1, breakSessions = 0,
                 sessionLog = [logEntry morning False 1 5] \<rparr>,
       isLoggingRef = False \<rparr>"

text \<open>A store in which \<^verbatim>\<open>workMinutes\<close> holds the text \<^verbatim>\<open>0\<close>.\<close>

definition zero_minutes_stored :: storage where
  "zero_minutes_stored = Map.empty(''workMinutes'' \<mapsto> Json (JNum 0))"

text \<open>
  Another first visit: both durations are set to 1 minute, auto-start is switched on and
  the timer is started; then fifty phases pass, each of sixty ticks and a run of the
  effect.
\<close>

definition minute_phases :: "occurrence list" where
  "minute_phases =
     [(morning, [], WorkInputChange ''1''), (morning, [], WorkInputBlur),
      (morning, [], BreakInputChange ''1''), (morning, [], BreakInputBlur),
      (morning, [], AutoStartChange True), (morning, [], ClickToggle)]"

definition one_phase :: "occurrence list" where
  "one_phase = replicate 60 (morning, [], Interval) @ [(morning, [], PhaseEffect morning)]"

definition after_fifty_phases :: browser where
  "after_fifty_phases = run (concat (replicate 50 one_phase)) (run minute_phases fresh)"


text \<open>A store in which \<^verbatim>\<open>sessionLog\<close> holds 51 entries, each as the reducer writes
  them.\<close>

definition long_log_stored :: storage where
  "long_log_stored =
     Map.empty(''sessionLog'' \<mapsto> Json (log_json (replicate 51 (logEntry morning False 25 5))))"

text \<open>
  A store in which \<^verbatim>\<open>breakMinutes\<close> holds \<open>0\<close>, the component mounted over it, a
  minute of work less one second, and then the last second with the effect run thrice.
\<close>

definition zero_break_stored :: storage where
  "zero_break_stored = Map.empty(''breakMinutes'' \<mapsto> Json (JNum 0))"

definition zero_break_mounted :: browser where
  "zero_break_mounted =
     \<lparr> timer = firstRender\<lparr> breakMinutes := 0, breakInput := ''0'' \<rparr>,
       localStorage = persistEffect [] firstRender zero_break_stored \<rparr>"

definition zero_break_last_second :: browser where
  "zero_break_last_second = run one_minute_of_work zero_break_mounted"

definition effect_thrice :: "occurrence list" where
  "effect_thrice =
     [(morning, [], Interval), (morning, [], PhaseEffect morning),
      (morning, [], PhaseEffect morning), (morning, [], PhaseEffect morning)]"

section \<open>Properties\<close>

subsection \<open>The last second of a minute of work\<close>

lemma formatTime_examples:
  "formatTime 1500 = ''25:00''" "formatTime 59 = ''00:59''" "formatTime 6000 = ''100:00''"
  "formatTime 60 = ''01:00''" "formatTime (- 30) = ''-1:-30''"
  by (simp_all add: formatTime_def padStart2_def String_number_def js_rem_def decimal.simps)

lemma String_number_morning: "String_number 1700000000000 = ''1700000000000''"
  by (simp add: String_number_def decimal.simps)

lemma last_second_eq:
  "last_second =
     \<lparr> timer = \<lparr> workMinutes = 1, breakMinutes = 5, workInput = ''1'', breakInput = ''5'',
                 autoStart = False,
                 state = \<lparr> secondsLeft = 1, isRunning = True, isBreak = False,
                           message = ''Focus time! '' @ brain, workSessions = 0,
                           breakSessions = 0, sessionLog = [] \<rparr>,
                 isLoggingRef = False \<rparr>,
       localStorage = Map.empty \<rparr>"
  by (simp add: last_second_def one_minute_of_work_def fresh_def firstRender_def initialState_def
      onTimer_def dispatch_def handleWorkInputBlur_def toggleTimer_def coerceMinutes_def parseInt_def
      isStrWhiteSpaceChar_def inRadix_def digitValue_def radixValue_def Let_def eval_nat_numeral
      String_number_def decimal.simps)

lemma at_zero_eq:
  "timer at_zero =
     \<lparr> workMinutes = 1, breakMinutes = 5, workInput = ''1'', breakInput = ''5'',
       autoStart = False,
       state = \<lparr> secondsLeft = 0, isRunning = True, isBreak = False,
                 message = ''Focus time! '' @ brain, workSessions = 0,
                 breakSessions = 0, sessionLog = [] \<rparr>,
       isLoggingRef = False \<rparr>"
  by (simp add: at_zero_def last_second_eq onTimer_def dispatch_def)

lemma at_zero_due: "phaseGuard (timer at_zero)"
  by (simp add: at_zero_eq phaseGuard_def)

subsection \<open>The reducer\<close>

text \<open>
  C1. Whatever the state, \<^verbatim>\<open>PHASE_TRANSITION\<close> puts one new entry in front of the
  log: its kind is the phase that was active, its duration label is \<^verbatim>\<open>formatTime\<close>
  of the minutes of that phase, as passed with the action, times 60 (the older entries
  follow, cut to 49). The counter of the completed phase grows by one and the other is
  as before, \<^verbatim>\<open>isBreak\<close> is flipped, and \<^verbatim>\<open>secondsLeft\<close> is the minutes of the phase
  entered times 60. The minutes passed with the action are those configured at the
  moment: the effect, when its condition holds, leaves the state the reducer gives for
  the action with the work minutes, the break minutes and the auto-start of the
  component.
\<close>

theorem phase_transition_step:
  "sessionLog (timerReducer a s (PHASE_TRANSITION m b au)) =
     \<lparr> id' = String_number (Date_now a) @ ''-'' @ Math_random a,
       type = (if isBreak s then Break else Work),
       duration = formatTime ((if isBreak s then b else m) * 60),
       time = toLocaleTimeString a \<rparr> # take 49 (sessionLog s)
   \<and> length (sessionLog (timerReducer a s (PHASE_TRANSITION m b au))) =
       min 50 (length (sessionLog s) + 1)
   \<and> workSessions (timerReducer a s (PHASE_TRANSITION m b au)) =
       workSessions s + (if isBreak s then 0 else 1)
   \<and> breakSessions (timerReducer a s (PHASE_TRANSITION m b au)) =
       breakSessions s + (if isBreak s then 1 else 0)
   \<and> isBreak (timerReducer a s (PHASE_TRANSITION m b au)) = (\<not> isBreak s)
   \<and> secondsLeft (timerReducer a s (PHASE_TRANSITION m b au)) =
       (if isBreak (timerReducer a s (PHASE_TRANSITION m b au)) then b else m) * 60
   \<and> (phaseGuard (timer w) \<longrightarrow>
        state (timer (phaseEffect a a2 failing w)) =
        timerReducer a (state (timer w))
          (PHASE_TRANSITION (workMinutes (timer w)) (breakMinutes (timer w))
            (autoStart (timer w))))"
  by (simp add: logEntry_def Let_def phaseEffect_def dispatch_def)

theorem phase_transition_step_witness:
  "phaseGuard (timer at_zero)
   \<and> sessionLog (state (timer (phaseEffect morning morning [] at_zero))) =
       [\<lparr> id' = ''1700000000000-0.25'', type = Work, duration = ''01:00'',
          time = ''9:41:00 AM'' \<rparr>]
   \<and> workSessions (state (timer (phaseEffect morning morning [] at_zero))) = 1
   \<and> breakSessions (state (timer (phaseEffect morning morning [] at_zero))) = 0
   \<and> isBreak (state (timer (phaseEffect morning morning [] at_zero)))
   \<and> secondsLeft (state (timer (phaseEffect morning morning [] at_zero))) = 300"
proof -
  from phase_transition_step
    [of morning "state (timer at_zero)" 1 5 False at_zero morning "[]"] at_zero_due
  have "state (timer (phaseEffect morning morning [] at_zero)) =
        timerReducer morning (state (timer at_zero)) (PHASE_TRANSITION 1 5 False)"
    by (simp add: at_zero_eq del: timerReducer.simps)
  then show ?thesis
    using at_zero_due
    by (simp add: at_zero_eq logEntry_def morning_def formatTime_examples
        String_number_morning)
qed

text \<open>
  C2. After \<^verbatim>\<open>PHASE_TRANSITION\<close> the timer runs whenever the phase entered is the
  break, whatever \<^verbatim>\<open>autoStart\<close> is; when the phase entered is work,
  \<^verbatim>\<open>isRunning\<close> is the \<^verbatim>\<open>autoStart\<close> passed with the action, which is the one
  of the component when the effect dispatches the action.
\<close>

theorem phase_transition_isRunning:
  "(isBreak (timerReducer a s (PHASE_TRANSITION m b au)) \<longrightarrow>
      isRunning (timerReducer a s (PHASE_TRANSITION m b au)))
   \<and> (\<not> isBreak (timerReducer a s (PHASE_TRANSITION m b au)) \<longrightarrow>
      isRunning (timerReducer a s (PHASE_TRANSITION m b au)) = au)
   \<and> (phaseGuard (timer w) \<longrightarrow>
        isRunning (state (timer (phaseEffect a a2 failing w))) =
        (isBreak (state (timer (phaseEffect a a2 failing w))) \<or> autoStart (timer w)))"
  by (simp add: Let_def phaseEffect_def dispatch_def)

theorem phase_transition_isRunning_witness:
  "isBreak (timerReducer morning initialState (PHASE_TRANSITION 25 5 False))
   \<and> isRunning (timerReducer morning initialState (PHASE_TRANSITION 25 5 False))
   \<and> \<not> isBreak (timerReducer morning (initialState\<lparr> isBreak := True \<rparr>)
          (PHASE_TRANSITION 25 5 False))
   \<and> isRunning (timerReducer morning (initialState\<lparr> isBreak := True \<rparr>)
        (PHASE_TRANSITION 25 5 False)) = False
   \<and> phaseGuard (timer at_zero) \<and> \<not> autoStart (timer at_zero)
   \<and> isRunning (state (timer (phaseEffect morning morning [] at_zero)))"
proof -
  from phase_transition_isRunning [of morning initialState 25 5 False]
    phase_transition_isRunning [of morning "initialState\<lparr> isBreak := True \<rparr>" 25 5 False]
  have "isBreak (timerReducer morning initialState (PHASE_TRANSITION 25 5 False))
   \<and> isRunning (timerReducer morning initialState (PHASE_TRANSITION 25 5 False))
   \<and> \<not> isBreak (timerReducer morning (initialState\<lparr> isBreak := True \<rparr>)
          (PHASE_TRANSITION 25 5 False))
   \<and> isRunning (timerReducer morning (initialState\<lparr> isBreak := True \<rparr>)
        (PHASE_TRANSITION 25 5 False)) = False"
    by (simp add: initialState_def Let_def)
  moreover
  have "isBreak (state (timer (phaseEffect morning morning [] at_zero)))"
    by (simp add: phaseEffect_def phaseGuard_def dispatch_def at_zero_eq Let_def)
  with phase_transition_isRunning
    [of morning initialState 25 5 False at_zero morning "[]"] at_zero_due
  have "isRunning (state (timer (phaseEffect morning morning [] at_zero)))"
    by simp
  ultimately show ?thesis
    using at_zero_due by (simp add: at_zero_eq)
qed

text \<open>
  C6. Whatever the phase and whether the timer runs or not, \<^verbatim>\<open>RESET\<close> gives the
  work phase, stopped, with \<^verbatim>\<open>secondsLeft\<close> the work minutes passed with the action
  times 60; the handler of the reset button, \<^verbatim>\<open>resetTimer\<close>, passes the work minutes
  of the component.
\<close>

theorem reset_returns_to_work:
  "isBreak (timerReducer a s (RESET m)) = False
   \<and> isRunning (timerReducer a s (RESET m)) = False
   \<and> secondsLeft (timerReducer a s (RESET m)) = m * 60
   \<and> state (resetTimer a c) = timerReducer a (state c) (RESET (workMinutes c))"
  by (simp add: resetTimer_def dispatch_def)

text \<open>The key \<^verbatim>\<open>R\<close> calls the \<^verbatim>\<open>resetTimer\<close> of the first render, which passes 25
  whatever the work minutes are by then.\<close>

lemma key_R_resets_to_25:
  "secondsLeft (state (timer (handle a failing KeyR w))) = 25 * 60"
  by (simp add: onTimer_def dispatch_def)

text \<open>
  C7. \<^verbatim>\<open>RESET_HISTORY\<close> sets both counters to 0 and empties the log; the countdown,
  the running flag and the phase are as they were. Confirming the reset of the history
  does this to the state and nothing else.
\<close>

theorem reset_history_frame:
  "workSessions (timerReducer a s RESET_HISTORY) = 0
   \<and> breakSessions (timerReducer a s RESET_HISTORY) = 0
   \<and> sessionLog (timerReducer a s RESET_HISTORY) = []
   \<and> secondsLeft (timerReducer a s RESET_HISTORY) = secondsLeft s
   \<and> isRunning (timerReducer a s RESET_HISTORY) = isRunning s
   \<and> isBreak (timerReducer a s RESET_HISTORY) = isBreak s
   \<and> state (timer (confirmResetHistory a failing w)) =
       timerReducer a (state (timer w)) RESET_HISTORY"
  by (simp add: confirmResetHistory_def dispatch_def)

text \<open>
  C10. \<^verbatim>\<open>TICK\<close> on a positive \<^verbatim>\<open>secondsLeft\<close> takes one second off; on
  \<^verbatim>\<open>secondsLeft = 0\<close> it changes nothing. It never leaves a negative
  \<^verbatim>\<open>secondsLeft\<close>, and the running flag, the phase, both counters and the log are as
  before: the reducer makes no transition on a tick.
\<close>

theorem tick_counts_down:
  "(0 < secondsLeft s \<longrightarrow> secondsLeft (timerReducer a s TICK) = secondsLeft s - 1)
   \<and> (secondsLeft s = 0 \<longrightarrow> timerReducer a s TICK = s)
   \<and> 0 \<le> secondsLeft (timerReducer a s TICK)
   \<and> isRunning (timerReducer a s TICK) = isRunning s
   \<and> isBreak (timerReducer a s TICK) = isBreak s
   \<and> workSessions (timerReducer a s TICK) = workSessions s
   \<and> breakSessions (timerReducer a s TICK) = breakSessions s
   \<and> sessionLog (timerReducer a s TICK) = sessionLog s"
  by (cases s) simp

theorem tick_counts_down_witness:
  "0 < secondsLeft initialState
   \<and> secondsLeft (timerReducer morning initialState TICK) = 1499
   \<and> secondsLeft (initialState\<lparr> secondsLeft := 0 \<rparr>) = 0
   \<and> timerReducer morning (initialState\<lparr> secondsLeft := 0 \<rparr>) TICK =
       initialState\<lparr> secondsLeft := 0 \<rparr>"
  using tick_counts_down [of initialState morning]
    tick_counts_down [of "initialState\<lparr> secondsLeft := 0 \<rparr>" morning]
  by (simp add: initialState_def)

subsection \<open>Loading\<close>

lemma typeof_string: "(typeof v = ''string'') = is_text v"
  by (cases v rule: typeof.cases) simp_all

lemma includes_kind: "Array_includes [JStr ''Work'', JStr ''Break''] v = is_kind v"
  by (cases v rule: is_kind.cases) auto

text \<open>The check of the code accepts exactly the entries the specification describes.\<close>

lemma validEntry_as_specified: "validEntry e = entry_as_specified e"
  by (cases e) (simp_all add: validEntry_def typeof_string includes_kind)

lemma every_validEntry: "every validEntry v = (isArray v \<and> \<not> malformed (Json v))"
  by (cases v) (simp_all add: list_all_iff validEntry_as_specified)

lemma not_array_malformed: "\<not> isArray v \<Longrightarrow> malformed (Json v)"
  by (cases v) simp_all

lemma getLocalStorage_sessionLog:
  "getLocalStorage store ''sessionLog'' fallback =
     (case store ''sessionLog'' of
        Some (Json v) \<Rightarrow> if malformed (Json v) then fallback else v
      | _ \<Rightarrow> fallback)"
  by (auto simp: getLocalStorage_def getLocalStorage_try_def JSON_parse_def every_validEntry
      split: option.splits item.splits dest: not_array_malformed)

lemma getLocalStorage_other:
  "key \<noteq> ''sessionLog'' \<Longrightarrow>
   getLocalStorage store key fallback =
     (case store key of Some (Json v) \<Rightarrow> v | _ \<Rightarrow> fallback)"
  by (auto simp: getLocalStorage_def getLocalStorage_try_def JSON_parse_def
      split: option.splits item.splits)

text \<open>
  C8. When the text stored under \<^verbatim>\<open>sessionLog\<close> is malformed (it is not a
  sequence, or one of its entries misses one of the four fields or has one of another
  type), \<^verbatim>\<open>getLocalStorage\<close> returns its fallback, whole: the \<^verbatim>\<open>catch\<close> turns the
  exception of \<^verbatim>\<open>JSON.parse\<close> into the fallback too. The log the initialising effect
  loads is then empty.
\<close>

theorem malformed_log_discarded:
  assumes "store ''sessionLog'' = Some it" and "malformed it"
  shows "getLocalStorage store ''sessionLog'' fallback = fallback
         \<and> log' (load store) = JArr []"
  using assms by (cases it) (simp_all add: load_def getLocalStorage_sessionLog)

theorem malformed_log_discarded_witness:
  "malformed (Json (JArr [entry_without_type]))
   \<and> log' (load (Map.empty(''sessionLog'' \<mapsto> Json (JArr [entry_without_type])))) = JArr []
   \<and> malformed (Json (JStr ''[]''))
   \<and> log' (load (Map.empty(''sessionLog'' \<mapsto> Json (JStr ''[]'')))) = JArr []
   \<and> malformed Garbled
   \<and> log' (load (Map.empty(''sessionLog'' \<mapsto> Garbled))) = JArr []"
  using
    malformed_log_discarded [of "Map.empty(''sessionLog'' \<mapsto> Json (JArr [entry_without_type]))"
      "Json (JArr [entry_without_type])" "JArr []"]
    malformed_log_discarded [of "Map.empty(''sessionLog'' \<mapsto> Json (JStr ''[]''))"
      "Json (JStr ''[]'')" "JArr []"]
    malformed_log_discarded [of "Map.empty(''sessionLog'' \<mapsto> Garbled)" Garbled "JArr []"]
  by (simp add: entry_without_type_def)

subsection \<open>What every run keeps\<close>

lemma getLocalStorage_eq:
  "getLocalStorage store key fallback =
     (case store key of
        Some (Json v) \<Rightarrow> if key = ''sessionLog'' \<and> malformed (Json v) then fallback else v
      | _ \<Rightarrow> fallback)"
  by (cases "key = ''sessionLog''")
    (simp_all add: getLocalStorage_sessionLog getLocalStorage_other
      split: option.splits item.splits)

lemma getLocalStorage_set:
  "getLocalStorage (setLocalStorage failing k v store) key fallback =
     (if key = k \<and> k \<notin> set failing
      then (if k = ''sessionLog'' \<and> malformed (Json v) then fallback else v)
      else getLocalStorage store key fallback)"
  by (simp add: getLocalStorage_eq setLocalStorage_def)

lemma SessionLog_json_as_specified: "entry_as_specified (SessionLog_json e)"
  by (cases "type e") (simp_all add: SessionLog_json_def phase_name_def)

lemma log_json_not_malformed: "\<not> malformed (Json (log_json l))"
  by (simp add: log_json_def SessionLog_json_as_specified)

lemma at_most_50_log_json: "at_most_50 (log_json l) = (length l \<le> 50)"
  by (simp add: log_json_def)

lemma those_length: "those xs = Some ys \<Longrightarrow> length ys = length xs"
  by (induction xs arbitrary: ys) (auto split: option.splits)

lemma as_log_length: "as_log v = Some l \<Longrightarrow> at_most_50 v \<Longrightarrow> length l \<le> 50"
  by (cases v) (auto dest: those_length)

lemma as_number_at_least_one: "as_number v = Some n \<Longrightarrow> at_least_one v \<Longrightarrow> 1 \<le> n"
  by (simp add: at_least_one_def)

lemma as_number_of_int: "as_number (JNum (of_int n)) = Some n"
  by simp

lemma as_number_of_int_plus: "as_number (JNum (of_int n + 1)) = Some (n + 1)"
  using as_number_of_int [of "n + 1"] by simp

lemma at_least_one_of_int: "at_least_one (JNum (of_int n)) = (1 \<le> n)"
  by (simp add: at_least_one_def)

lemma at_least_one_defaults: "at_least_one (JNum 25)" "at_least_one (JNum 5)"
  by (simp_all add: at_least_one_def)

lemma coerceMinutes_ge_1: "1 \<le> coerceMinutes input"
  by (simp add: coerceMinutes_def)

lemma well_stored_empty: "well_stored Map.empty"
  by (auto simp: well_stored_def load_def getLocalStorage_eq at_least_one_defaults)

lemma well_stored_persist:
  assumes "well_stored store" "1 \<le> workMinutes c" "1 \<le> breakMinutes c"
    "length (sessionLog (state c)) \<le> 50"
  shows "well_stored (persistEffect failing c store)"
  using assms
  by (auto simp: well_stored_def load_def persistEffect_def getLocalStorage_set
      log_json_not_malformed at_most_50_log_json at_least_one_of_int Let_def)

lemma well_stored_phase:
  assumes "well_stored store" and "as_number v \<noteq> None" and "as_number v' \<noteq> None"
  shows "well_stored
     (setLocalStorage failing ''sessionLog'' (log_json (e # take 49 l))
       (setLocalStorage failing ''breakSessions'' v'
         (setLocalStorage failing ''workSessions'' v store)))"
  using assms
  by (auto simp: well_stored_def load_def getLocalStorage_set
      log_json_not_malformed at_most_50_log_json Let_def)

lemma well_stored_reset_history:
  assumes "well_stored store"
  shows "well_stored
     (setLocalStorage failing ''sessionLog'' (JArr [])
       (setLocalStorage failing ''breakSessions'' (JNum 0)
         (setLocalStorage failing ''workSessions'' (JNum 0) store)))"
  using assms
  by (auto simp: well_stored_def load_def getLocalStorage_set Let_def)

lemma well_configured_handle:
  assumes "well_configured w"
  shows "well_configured (handle a failing e w)"
proof (cases e)
  case (PhaseEffect a2)
  with assms show ?thesis
    by (auto simp: well_configured_def phaseEffect_def dispatch_def Let_def
        as_number_of_int_plus intro!: well_stored_phase)
next
  case PersistEffect
  with assms show ?thesis
    by (simp add: well_configured_def well_stored_persist)
next
  case WorkInputBlur
  with assms show ?thesis
    by (simp add: well_configured_def onTimer_def handleWorkInputBlur_def dispatch_def
        Let_def coerceMinutes_ge_1)
next
  case BreakInputBlur
  with assms show ?thesis
    by (simp add: well_configured_def onTimer_def handleBreakInputBlur_def dispatch_def
        Let_def coerceMinutes_ge_1)
next
  case ConfirmResetHistory
  with assms show ?thesis
    by (simp add: well_configured_def confirmResetHistory_def dispatch_def
        well_stored_reset_history)
qed (use assms in \<open>simp_all add: well_configured_def onTimer_def dispatch_def toggleTimer_def
      stopTimer_def resetTimer_def\<close>)

lemma well_configured_mount:
  assumes "well_configured w" and "initEffect a (localStorage w) firstRender = Some c"
  shows "well_configured
           \<lparr> timer = c, localStorage = persistEffect failing firstRender (localStorage w) \<rparr>"
proof -
  from assms(1) have st: "well_stored (localStorage w)"
    by (simp add: well_configured_def)
  have "well_stored (persistEffect failing firstRender (localStorage w))"
    by (rule well_stored_persist [OF st]) (simp_all add: firstRender_def initialState_def)
  moreover from assms(2) st
  have "1 \<le> workMinutes c \<and> 1 \<le> breakMinutes c \<and> \<not> isLoggingRef c
        \<and> length (sessionLog (state c)) \<le> 50"
    by (auto simp: initEffect_def well_stored_def Let_def dispatch_def firstRender_def
        split: option.splits dest: as_number_at_least_one as_log_length)
  ultimately show ?thesis
    by (simp add: well_configured_def)
qed

text \<open>
  Along every run both durations are a minute or more, \<^verbatim>\<open>isLoggingRef\<close> is false
  between events, the log has 50 entries or fewer, and the store loads to such values.
\<close>

lemma reachable_well_configured: "reachable w \<Longrightarrow> well_configured w"
proof (induction rule: reachable.induct)
  case first_visit
  show ?case
    by (simp add: fresh_def well_configured_def firstRender_def initialState_def
        well_stored_empty)
next
  case (mount w a c failing)
  then show ?case by (simp add: well_configured_mount)
next
  case (event w a failing e)
  then show ?case by (simp add: well_configured_handle)
qed

lemma run_append: "run (es @ es') w = run es' (run es w)"
  by (induction es arbitrary: w) auto

lemma well_configured_run: "well_configured w \<Longrightarrow> well_configured (run es w)"
  by (induction es arbitrary: w) (auto simp del: handle.simps simp: well_configured_handle)

lemma reachable_run: "reachable w \<Longrightarrow> reachable (run es w)"
proof (induction es arbitrary: w)
  case Nil
  then show ?case by simp
next
  case (Cons x es)
  obtain a failing e where x: "x = (a, failing, e)"
    by (cases x) auto
  have "reachable (handle a failing e w)"
    by (rule reachable.event [OF Cons.prems])
  then have "reachable (run es (handle a failing e w))"
    by (rule Cons.IH)
  then show ?case by (simp add: x)
qed

lemma last_second_reachable: "reachable last_second"
  unfolding last_second_def by (rule reachable_run [OF reachable.first_visit])

subsection \<open>Crossings and transitions\<close>






lemma phaseEffect_idle:
  assumes "\<not> phaseGuard (timer w)"
  shows "phaseEffect a a2 failing w = w"
  using assms by (simp add: phaseEffect_def)




text \<open>\<^verbatim>\<open>isLoggingRef\<close> is false between events, whatever the store: the effect sets
  and clears it in one run.\<close>

lemma isLoggingRef_handle:
  "\<not> isLoggingRef (timer w) \<Longrightarrow> \<not> isLoggingRef (timer (handle a failing e w))"
  by (cases e)
    (simp_all add: onTimer_def dispatch_def phaseEffect_def toggleTimer_def
      stopTimer_def resetTimer_def handleWorkInputBlur_def handleBreakInputBlur_def
      confirmResetHistory_def Let_def)

lemma isLoggingRef_initEffect:
  "initEffect a store firstRender = Some c \<Longrightarrow> \<not> isLoggingRef c"
  by (auto simp: initEffect_def dispatch_def firstRender_def Let_def split: option.splits)


lemma at_zero_reachable: "reachable at_zero"
  unfolding at_zero_def by (rule reachable_run [OF last_second_reachable])




subsection \<open>The log\<close>

lemma take_49_of_50:
  "length xs \<le> 50 \<Longrightarrow> take 49 xs = (if length xs = 50 then butlast xs else xs)"
  by (simp add: butlast_conv_take)

text \<open>What is saved is read back as it was, in the same order.\<close>

lemma as_SessionLog_json: "as_SessionLog (SessionLog_json e) = Some e"
  by (cases "type e") (simp_all add: as_SessionLog_def SessionLog_json_def phase_name_def)

lemma those_map_Some: "those (map Some xs) = Some xs"
  by (induction xs) simp_all

lemma as_log_json: "as_log (log_json l) = Some l"
proof -
  have "map as_SessionLog (map SessionLog_json l) = map Some l"
    by (simp add: as_SessionLog_json)
  then show ?thesis
    by (simp add: log_json_def those_map_Some del: map_map)
qed

lemma ticks:
  "int n \<le> secondsLeft (state (timer w)) \<Longrightarrow>
   timer (run (replicate n (a, failing, Interval)) w) =
     (timer w)\<lparr> state := (state (timer w))\<lparr> secondsLeft := secondsLeft (state (timer w)) - int n \<rparr> \<rparr>"
proof (induction n arbitrary: w)
  case 0
  show ?case by simp
next
  case (Suc n)
  let ?w = "onTimer (dispatch a TICK) w"
  from Suc.prems have "int n \<le> secondsLeft (state (timer ?w))"
    by (simp add: onTimer_def dispatch_def)
  from Suc.IH [OF this] Suc.prems show ?case
    by (simp add: onTimer_def dispatch_def)
qed

lemma minute_phase:
  assumes "workMinutes (timer w) = 1" "breakMinutes (timer w) = 1" "autoStart (timer w)"
    "secondsLeft (state (timer w)) = 60" "isRunning (state (timer w))" "\<not> isLoggingRef (timer w)"
  shows "workMinutes (timer (run one_phase w)) = 1 \<and> breakMinutes (timer (run one_phase w)) = 1
    \<and> autoStart (timer (run one_phase w)) \<and> secondsLeft (state (timer (run one_phase w))) = 60
    \<and> isRunning (state (timer (run one_phase w))) \<and> \<not> isLoggingRef (timer (run one_phase w))
    \<and> length (sessionLog (state (timer (run one_phase w)))) =
        min 50 (Suc (length (sessionLog (state (timer w)))))"
proof -
  have "int 60 \<le> secondsLeft (state (timer w))"
    using assms(4) by simp
  from ticks [OF this, of morning "[]"] assms show ?thesis
    by (simp add: one_phase_def run_append phaseEffect_def phaseGuard_def dispatch_def Let_def)
qed

lemma minute_phases_log:
  assumes "workMinutes (timer w) = 1" "breakMinutes (timer w) = 1" "autoStart (timer w)"
    "secondsLeft (state (timer w)) = 60" "isRunning (state (timer w))" "\<not> isLoggingRef (timer w)"
    "length (sessionLog (state (timer w))) \<le> 50"
  shows "length (sessionLog (state (timer (run (concat (replicate n one_phase)) w)))) =
         min 50 (n + length (sessionLog (state (timer w))))"
  using assms
proof (induction n arbitrary: w)
  case 0
  then show ?case by simp
next
  case (Suc n)
  note step = minute_phase [OF Suc.prems(1-6)]
  have "length (sessionLog (state (timer (run (concat (replicate n one_phase)) (run one_phase w))))) =
        min 50 (n + length (sessionLog (state (timer (run one_phase w)))))"
    by (rule Suc.IH) (simp_all add: step)
  with step Suc.prems(7) show ?case
    by (simp add: run_append)
qed

lemma after_fifty_phases_log: "length (sessionLog (state (timer after_fifty_phases))) = 50"
proof -
  have "length (sessionLog (state (timer after_fifty_phases))) =
        min 50 (50 + length (sessionLog (state (timer (run minute_phases fresh)))))"
    unfolding after_fifty_phases_def
    by (rule minute_phases_log)
      (simp_all add: minute_phases_def fresh_def firstRender_def initialState_def onTimer_def
        dispatch_def handleWorkInputBlur_def handleBreakInputBlur_def toggleTimer_def
        coerceMinutes_def parseInt_def isStrWhiteSpaceChar_def inRadix_def digitValue_def
        radixValue_def Let_def)
  then show ?thesis by simp
qed

lemma after_fifty_phases_reachable: "reachable after_fifty_phases"
  unfolding after_fifty_phases_def
  by (intro reachable_run reachable.first_visit)

lemma log_after_event:
  "sessionLog (state (timer (handle a failing e w))) =
     (if is_PhaseEffect e \<and> phaseGuard (timer w)
      then logEntry a (isBreak (state (timer w))) (workMinutes (timer w))
             (breakMinutes (timer w)) # take 49 (sessionLog (state (timer w)))
      else if e = ConfirmResetHistory then [] else sessionLog (state (timer w)))"
  by (cases e)
    (simp_all add: onTimer_def dispatch_def phaseEffect_def toggleTimer_def stopTimer_def
      resetTimer_def handleWorkInputBlur_def handleBreakInputBlur_def confirmResetHistory_def
      Let_def)

lemma log_is_history:
  "sessionLog (state (timer w)) = take 50 h \<Longrightarrow>
   sessionLog (state (timer (run es w))) = take 50 (history es w h)"
proof (induction es arbitrary: w h)
  case Nil
  then show ?case by simp
next
  case (Cons x es)
  obtain a failing e where x: "x = (a, failing, e)"
    by (cases x) auto
  let ?h = "if is_PhaseEffect e \<and> phaseGuard (timer w)
        then logEntry a (isBreak (state (timer w))) (workMinutes (timer w))
               (breakMinutes (timer w)) # h
        else if e = ConfirmResetHistory then [] else h"
  have "sessionLog (state (timer (handle a failing e w))) = take 50 ?h"
    using Cons.prems by (simp add: log_after_event take_Cons' del: handle.simps)
  from Cons.IH [OF this] show ?case
    by (simp add: x del: handle.simps)
qed

lemma crossing_history:
  "history crossing last_second [] = [logEntry morning False 1 5]"
  by (simp add: last_second_eq crossing_def phaseGuard_def phaseEffect_def
      onTimer_def dispatch_def Let_def)

text \<open>
  Over a store that starts empty and that the application alone writes: in every state
  of a run the log has 50 entries or fewer, and so has the log the store holds. However
  the run goes on from there, the log is the first 50 entries of the history, the list
  of every entry logged, the newest first. \<^verbatim>\<open>PHASE_TRANSITION\<close> puts the new entry
  first; on a log of 50 entries it drops the last one, the oldest, and the log stays at
  50.
\<close>

lemma log_capped_in_application_runs:
  assumes "reachable w"
  shows "length (sessionLog (state (timer w))) \<le> 50
         \<and> at_most_50 (log' (load (localStorage w)))
         \<and> sessionLog (state (timer (run es w))) =
             take 50 (history es w (sessionLog (state (timer w))))
         \<and> sessionLog (timerReducer a (state (timer w)) (PHASE_TRANSITION m b au)) =
             logEntry a (isBreak (state (timer w))) m b
             # (if length (sessionLog (state (timer w))) = 50
                then butlast (sessionLog (state (timer w)))
                else sessionLog (state (timer w)))
         \<and> length (sessionLog (timerReducer a (state (timer w)) (PHASE_TRANSITION m b au))) \<le> 50"
proof -
  from assms have wc: "well_configured w"
    by (rule reachable_well_configured)
  then have len: "length (sessionLog (state (timer w))) \<le> 50"
    and st: "well_stored (localStorage w)"
    by (simp_all add: well_configured_def)
  from st have "at_most_50 (log' (load (localStorage w)))"
    by (simp add: well_stored_def Let_def)
  moreover from len have "sessionLog (state (timer (run es w))) =
      take 50 (history es w (sessionLog (state (timer w))))"
    by (intro log_is_history) simp
  ultimately show ?thesis
    using len by (simp add: Let_def take_49_of_50)
qed

lemma full_log_example:
  "reachable after_fifty_phases
   \<and> length (sessionLog (state (timer after_fifty_phases))) = 50
   \<and> sessionLog (timerReducer morning (state (timer after_fifty_phases))
        (PHASE_TRANSITION 1 1 True)) =
       logEntry morning (isBreak (state (timer after_fifty_phases))) 1 1
       # butlast (sessionLog (state (timer after_fifty_phases)))
   \<and> reachable last_second
   \<and> sessionLog (state (timer (run crossing last_second))) = [logEntry morning False 1 5]"
proof -
  from log_capped_in_application_runs [OF after_fifty_phases_reachable, of "[]" morning 1 1 True]
  have "sessionLog (timerReducer morning (state (timer after_fifty_phases))
        (PHASE_TRANSITION 1 1 True)) =
       logEntry morning (isBreak (state (timer after_fifty_phases))) 1 1
       # butlast (sessionLog (state (timer after_fifty_phases)))"
    by (simp add: after_fifty_phases_log del: timerReducer.simps)
  moreover
  have "sessionLog (state (timer last_second)) = []"
    by (simp add: last_second_eq)
  with log_capped_in_application_runs [OF last_second_reachable, of crossing morning 1 1 True]
  have "sessionLog (state (timer (run crossing last_second))) = [logEntry morning False 1 5]"
    by (simp add: crossing_history del: timerReducer.simps)
  ultimately show ?thesis
    by (simp add: after_fifty_phases_reachable last_second_reachable after_fifty_phases_log
        del: timerReducer.simps)
qed

text \<open>\<^verbatim>\<open>PHASE_TRANSITION\<close> leaves 50 entries or fewer whatever the log was.\<close>

lemma phase_transition_caps:
  "length (sessionLog (timerReducer a s (PHASE_TRANSITION m b au))) \<le> 50"
  by (simp add: Let_def)

text \<open>A stored log of well-formed entries is loaded whole, whatever its length:
  \<^verbatim>\<open>getLocalStorage\<close> checks each entry and not their number, and \<^verbatim>\<open>INIT_STATE\<close>
  takes the log as it is.\<close>

lemma stored_log_loaded_whole:
  "map_option (\<lambda>c. sessionLog (state c))
     (initEffect a (Map.empty(''sessionLog'' \<mapsto> Json (log_json l))) firstRender) = Some l"
  by (simp add: initEffect_def load_def getLocalStorage_eq log_json_not_malformed as_log_json
      dispatch_def Let_def)

text \<open>
  C5, at a store in which \<^verbatim>\<open>sessionLog\<close> holds 51 well-formed entries: after the
  initialising effect the log of the state has 51 entries, where the specification has
  50 at most in every state.
\<close>

theorem stored_long_log_loaded:
  "map_option (\<lambda>c. length (sessionLog (state c))) (initEffect a long_log_stored firstRender)
     = Some 51"
  using stored_log_loaded_whole [of a "replicate 51 (logEntry morning False 25 5)"]
  by (auto simp: long_log_stored_def)

subsection \<open>Editing the durations\<close>

lemma coerceMinutes_10: "coerceMinutes ''10'' = 10"
  by (simp add: coerceMinutes_def parseInt_def isStrWhiteSpaceChar_def inRadix_def
      digitValue_def radixValue_def)

lemma coerceMinutes_examples:
  "coerceMinutes ''0'' = 1" "coerceMinutes ''-5'' = 1" "coerceMinutes ''abc'' = 1"
  "coerceMinutes [] = 1" "coerceMinutes '' 7.5'' = 7"
  by (simp_all add: coerceMinutes_def parseInt_def isStrWhiteSpaceChar_def inRadix_def
      digitValue_def radixValue_def)

text \<open>Leaving the input of the work minutes while idle on work: the countdown is set to
  the new duration, and the phase stays.\<close>

lemma handleWorkInputBlur_idle_work:
  assumes "\<not> isBreak (state c)" and "\<not> isRunning (state c)"
  shows "workMinutes (handleWorkInputBlur a c) = coerceMinutes (workInput c)
         \<and> secondsLeft (state (handleWorkInputBlur a c)) = coerceMinutes (workInput c) * 60
         \<and> isBreak (state (handleWorkInputBlur a c)) = isBreak (state c)"
  using assms by (simp add: handleWorkInputBlur_def dispatch_def Let_def)

text \<open>Leaving the input of the break minutes while idle on break: \<^verbatim>\<open>RESET\<close> is
  dispatched with the work minutes, so the countdown is set to the work duration and the
  phase becomes work.\<close>

lemma handleBreakInputBlur_idle_break:
  assumes "isBreak (state c)" and "\<not> isRunning (state c)"
  shows "breakMinutes (handleBreakInputBlur a c) = coerceMinutes (breakInput c)
         \<and> secondsLeft (state (handleBreakInputBlur a c)) = workMinutes c * 60
         \<and> \<not> isBreak (state (handleBreakInputBlur a c))"
  using assms by (simp add: handleBreakInputBlur_def dispatch_def Let_def)

lemma after_crossing_eq:
  "timer (run crossing last_second) =
     \<lparr> workMinutes = 1, breakMinutes = 5, workInput = ''1'', breakInput = ''5'',
       autoStart = False,
       state = \<lparr> secondsLeft = 299, isRunning = True, isBreak = True,
                 message = ''Break time! '' @ party, workSessions = 1, breakSessions = 0,
                 sessionLog = [logEntry morning False 1 5] \<rparr>,
       isLoggingRef = False \<rparr>"
  by (simp add: last_second_eq crossing_def phaseGuard_def phaseEffect_def
      onTimer_def dispatch_def Let_def)

text \<open>The component \<open>paused_on_break\<close> is one of a run.\<close>

lemma paused_on_break_reachable:
  "reachable (run pause_and_type (run crossing last_second))"
  "timer (run pause_and_type (run crossing last_second)) = paused_on_break"
  by (simp_all add: reachable_run last_second_reachable)
    (simp add: pause_and_type_def onTimer_def toggleTimer_def dispatch_def after_crossing_eq
      paused_on_break_def)

text \<open>
  C3, at \<open>paused_on_break\<close>: idle on the break, work minutes 1, \<open>10\<close> typed as the break
  minutes. On leaving the input the value is coerced and the break minutes become 10,
  but \<^verbatim>\<open>secondsLeft\<close> becomes 60, the work duration, where the specification has
  \<open>10 * 60\<close>, and the phase becomes work, where the specification has it stay the
  break.
\<close>

theorem break_edit_resets_to_work:
  "isBreak (state paused_on_break) \<and> \<not> isRunning (state paused_on_break)
   \<and> breakInput paused_on_break = ''10''
   \<and> breakMinutes (handleBreakInputBlur a paused_on_break) = 10
   \<and> secondsLeft (state (handleBreakInputBlur a paused_on_break)) = 60
   \<and> isBreak (state (handleBreakInputBlur a paused_on_break)) = False"
  by (simp add: handleBreakInputBlur_def dispatch_def Let_def coerceMinutes_10
      paused_on_break_def)

subsection \<open>Loading the durations\<close>

text \<open>Along a run both durations are a minute or more.\<close>

lemma reachable_durations:
  "reachable w \<Longrightarrow> 1 \<le> workMinutes (timer w) \<and> 1 \<le> breakMinutes (timer w)"
  by (drule reachable_well_configured) (simp add: well_configured_def)

lemma as_string_text: "is_text v \<Longrightarrow> \<exists>s. as_string v = Some s"
  by (cases v rule: is_text.cases) simp_all

lemma as_phase_kind: "is_kind v \<Longrightarrow> \<exists>p. as_phase v = Some p"
  by (cases v rule: is_kind.cases) auto

lemma as_SessionLog_specified: "entry_as_specified e \<Longrightarrow> \<exists>x. as_SessionLog e = Some x"
proof (cases e)
  case (JObj props)
  assume "entry_as_specified e"
  with JObj obtain i p d t where
    "as_string (map_of props ''id'') = Some i" "as_phase (map_of props ''type'') = Some p"
    "as_string (map_of props ''duration'') = Some d" "as_string (map_of props ''time'') = Some t"
    by (auto dest!: as_string_text as_phase_kind)
  with JObj show ?thesis
    by (simp add: as_SessionLog_def)
qed simp_all

lemma those_defined:
  "(\<And>x. x \<in> set xs \<Longrightarrow> \<exists>y. x = Some y) \<Longrightarrow> \<exists>ys. those xs = Some ys"
proof (induction xs)
  case Nil
  show ?case by simp
next
  case (Cons x xs)
  then obtain y ys where "x = Some y" "those xs = Some ys"
    by (metis list.set_intros(1) list.set_intros(2))
  then show ?case by simp
qed

text \<open>Whatever is stored, the log that is loaded has the declared type.\<close>

lemma loaded_log_typed: "\<exists>l. as_log (log' (load store)) = Some l"
proof (cases "store ''sessionLog''")
  case None
  then show ?thesis by (simp add: load_def getLocalStorage_sessionLog)
next
  case (Some it)
  show ?thesis
  proof (cases "malformed it")
    case True
    with Some show ?thesis
      by (cases it) (simp_all add: load_def getLocalStorage_sessionLog)
  next
    case False
    then obtain es where it: "it = Json (JArr es)"
      by (cases it rule: malformed.cases) simp_all
    with False have "\<And>x. x \<in> set (map as_SessionLog es) \<Longrightarrow> \<exists>y. x = Some y"
      by (auto dest: as_SessionLog_specified)
    then have "\<exists>l. those (map as_SessionLog es) = Some l"
      by (rule those_defined)
    with Some False it show ?thesis
      by (simp add: load_def getLocalStorage_sessionLog)
  qed
qed

lemma well_stored_loads:
  assumes "well_stored store"
  shows "\<exists>c. initEffect a store firstRender = Some c"
proof -
  obtain l where "as_log (log' (load store)) = Some l"
    using loaded_log_typed by blast
  moreover from assms obtain m b where "as_number (work (load store)) = Some m"
    "as_number (brk (load store)) = Some b"
    by (auto simp: well_stored_def at_least_one_def Let_def split: option.splits)
  moreover from assms obtain au ws bs where "as_boolean (auto (load store)) = Some au"
    "as_number (workS (load store)) = Some ws" "as_number (breakS (load store)) = Some bs"
    by (auto simp: well_stored_def Let_def)
  ultimately show ?thesis
    by (simp add: initEffect_def Let_def)
qed

text \<open>Along a run the page can always be loaded anew: what the application has stored
  loads at the declared types.\<close>

lemma reload_succeeds:
  "reachable w \<Longrightarrow> \<exists>c. initEffect a (localStorage w) firstRender = Some c"
  by (drule reachable_well_configured) (simp add: well_configured_def well_stored_loads)

text \<open>A stored duration is loaded as it is: \<^verbatim>\<open>getLocalStorage\<close> checks nothing under
  the keys of the durations.\<close>

lemma stored_duration_as_it_is:
  "work (load (Map.empty(''workMinutes'' \<mapsto> Json v))) = v"
  "brk (load (Map.empty(''breakMinutes'' \<mapsto> Json v))) = v"
  by (simp_all add: load_def getLocalStorage_eq)

text \<open>
  C9, at a store in which \<^verbatim>\<open>workMinutes\<close> holds \<open>0\<close>: after the initialising
  effect the work minutes are 0, and so is \<^verbatim>\<open>secondsLeft\<close>, where the specification
  has a duration of 1 or more on every path, the loading from the store included.
\<close>

theorem stored_zero_minutes_loaded:
  "map_option workMinutes (initEffect a zero_minutes_stored firstRender) = Some 0
   \<and> map_option (\<lambda>c. secondsLeft (state c)) (initEffect a zero_minutes_stored firstRender)
       = Some 0"
  by (simp add: initEffect_def load_def zero_minutes_stored_def getLocalStorage_eq dispatch_def
      firstRender_def Let_def)

text \<open>
  What a stored duration of 0 leads to. The component is mounted over a store in which
  \<^verbatim>\<open>breakMinutes\<close> holds \<open>0\<close>; a minute of work passes. The transition into the break
  sets \<^verbatim>\<open>secondsLeft\<close> to 0 with the timer running, so the condition of the effect
  holds again at once: after one crossing the effect performs two transitions, and the
  log has a break on top of the work.
\<close>

lemma zero_break_mounted_eq:
  "initEffect a zero_break_stored firstRender = Some (timer zero_break_mounted)"
  by (simp add: initEffect_def load_def zero_break_stored_def zero_break_mounted_def
      getLocalStorage_eq dispatch_def firstRender_def initialState_def Let_def
      String_number_def decimal.simps)

lemma zero_break_last_second_eq:
  "timer zero_break_last_second =
     \<lparr> workMinutes = 1, breakMinutes = 0, workInput = ''1'', breakInput = ''0'',
       autoStart = False,
       state = \<lparr> secondsLeft = 1, isRunning = True, isBreak = False,
                 message = ''Focus time! '' @ brain, workSessions = 0,
                 breakSessions = 0, sessionLog = [] \<rparr>,
       isLoggingRef = False \<rparr>"
  by (simp add: zero_break_last_second_def zero_break_mounted_def one_minute_of_work_def
      firstRender_def initialState_def
      onTimer_def dispatch_def handleWorkInputBlur_def toggleTimer_def coerceMinutes_def parseInt_def
      isStrWhiteSpaceChar_def inRadix_def digitValue_def radixValue_def Let_def eval_nat_numeral
      String_number_def decimal.simps)

lemma timer_onTimer: "timer (onTimer f w) = f (timer w)"
  by (simp add: onTimer_def)

lemma timer_phaseEffect:
  "timer (phaseEffect a a2 failing w) =
     (if phaseGuard (timer w)
      then dispatch a (PHASE_TRANSITION (workMinutes (timer w)) (breakMinutes (timer w))
             (autoStart (timer w))) (timer w)
      else timer w)"
  by (simp add: phaseEffect_def phaseGuard_def dispatch_def Let_def)

lemma zero_break_two_transitions:
  "crossings effect_thrice zero_break_last_second = 1"
  "transitions effect_thrice zero_break_last_second = 2"
  "map type (sessionLog (state (timer (run effect_thrice zero_break_last_second)))) =
     [Break, Work]"
  by (simp_all add: effect_thrice_def timer_onTimer timer_phaseEffect
      zero_break_last_second_eq phaseGuard_def dispatch_def logEntry_def Let_def)

end
